theory Spec2Isabelle
  imports Main "HOL-Library.AList"
begin

section \<open>SAML handler of synapse: data model\<close>

text \<open>
  A shallow embedding of \<^verbatim>\<open>synapse/handlers/saml_handler.py\<close>.
  Python strings are \<^typ>\<open>string\<close>, Python integers are \<^typ>\<open>int\<close> (a retry
  count, which \<^verbatim>\<open>range(1000)\<close> produces, is a \<^typ>\<open>nat\<close>), a dictionary
  that the code iterates over is an association list in insertion order, and every
  exception is a value of \<open>error\<close>. A character is one of \<^typ>\<open>char\<close>, so the
  strings of the model are the ASCII strings of the code, and \<^verbatim>\<open>str.lower\<close> acts
  on the letters A to Z.
\<close>

subsection \<open>Exceptions\<close>

text \<open>
  \<open>SynapseError code msg\<close> and \<open>Exception msg\<close> are the two exceptions the file raises
  itself. \<open>IndexError\<close> is what Python raises for \<^verbatim>\<open>xs[0]\<close> on an empty list.
  An exception raised inside a collaborator (request parsing, data store, registration
  handler, login completion) is any of these, and it propagates unchanged, as in Python.
\<close>

datatype error =
    SynapseError int string
  | Exception string
  | IndexError

subsection \<open>Saml2SessionData (lines 40-48)\<close>

record Saml2SessionData =
  creation_time :: int
  ui_auth_session_id :: "string option"

type_synonym requests_dict = "(string \<times> Saml2SessionData) list"

subsection \<open>The parsed response of the SAML library\<close>

text \<open>
  Of \<^verbatim>\<open>saml2.response.AuthnResponse\<close> the handler reads \<^verbatim>\<open>not_signed\<close>,
  \<^verbatim>\<open>ava\<close> (attribute name to list of values) and \<^verbatim>\<open>in_response_to\<close>; the
  other fields are only logged.
\<close>

record AuthnResponse =
  not_signed :: bool
  ava :: "string \<rightharpoonup> string list"
  in_response_to :: string

section \<open>Expiry of pending sessions (lines 283-291)\<close>

text \<open>
  \<^verbatim>\<open>expire_sessions\<close> reads the clock and the configured lifetime from \<^verbatim>\<open>self\<close>;
  here they are the arguments \<open>now\<close> and \<open>lifetime\<close>. The first loop collects the request
  ids to expire, the second deletes them one by one.
\<close>

definition expire_sessions :: "int \<Rightarrow> int \<Rightarrow> requests_dict \<Rightarrow> requests_dict" where
  "expire_sessions now lifetime outstanding =
     (let expire_before = now - lifetime;
          to_expire = map fst (filter (\<lambda>(reqid, data). creation_time data < expire_before) outstanding)
      in fold AList.delete to_expire outstanding)"

section \<open>Identifier normalisation (lines 294-306)\<close>

text \<open>
  Modelled from the spec: the constant \<^verbatim>\<open>mxid_localpart_allowed_characters\<close> is
  imported from \<^verbatim>\<open>synapse.types\<close>, which is not among the sources; the spec calls
  it the allowed local-identifier set. The value below is the alphabet of Matrix
  localparts: \<^verbatim>\<open>_-./=\<close>, the lower-case letters and the digits. The function
  \<open>dot_replace_for_mxid\<close> takes the set as its first argument, so that lemmas can be
  stated for any such set.
\<close>

definition mxid_localpart_allowed_characters :: "char set" where
  "mxid_localpart_allowed_characters = set ''_-./=abcdefghijklmnopqrstuvwxyz0123456789''"

text \<open>\<^verbatim>\<open>str.lower\<close> on the ASCII letters; every other character is kept.\<close>

definition lower_char :: "char \<Rightarrow> char" where
  "lower_char c =
     (let n = (of_char c :: nat) in if 65 \<le> n \<and> n \<le> 90 then char_of (n + 32) else c)"

definition lower :: "string \<Rightarrow> string" where
  "lower username = map lower_char username"

text \<open>
  \<^verbatim>\<open>DOT_REPLACE_PATTERN\<close> is the negated character class of the allowed set, so
  \<^verbatim>\<open>DOT_REPLACE_PATTERN.sub(".", username)\<close> replaces each character outside the
  set by a dot.
\<close>

definition DOT_REPLACE_PATTERN_sub :: "char set \<Rightarrow> string \<Rightarrow> string" where
  "DOT_REPLACE_PATTERN_sub allowed username =
     map (\<lambda>c. if c \<in> allowed then c else CHR ''.'') username"

text \<open>\<^verbatim>\<open>re.sub("^_", "", username)\<close>: the anchor matches at the start only.\<close>

fun strip_leading_underscore :: "string \<Rightarrow> string" where
  "strip_leading_underscore [] = []"
| "strip_leading_underscore (c # cs) = (if c = CHR ''_'' then cs else c # cs)"

definition dot_replace_for_mxid :: "char set \<Rightarrow> string \<Rightarrow> string" where
  "dot_replace_for_mxid allowed username =
     strip_leading_underscore (DOT_REPLACE_PATTERN_sub allowed (lower username))"

section \<open>The default mapping provider (lines 315-398)\<close>

record SamlConfig =
  mxid_source_attribute :: string
  mxid_mapper :: "string \<Rightarrow> string"

text \<open>The dictionary a mapping provider returns; a missing key is \<open>None\<close>.\<close>

record attribute_dict =
  mxid_localpart :: "string option"
  displayname :: "string option"
  emails :: "string list option"

text \<open>\<^verbatim>\<open>str(n)\<close> for a natural number: its decimal digits, most significant first.\<close>

definition digit_char :: "nat \<Rightarrow> char" where
  "digit_char d = char_of (48 + d)"

fun str :: "nat \<Rightarrow> string" where
  "str n = (if n < 10 then [digit_char n] else str (n div 10) @ [digit_char (n mod 10)])"

declare str.simps [simp del]

text \<open>
  \<^verbatim>\<open>saml_response.ava["uid"][0]\<close>: a missing key raises \<^verbatim>\<open>KeyError\<close>, which the
  method turns into a 400; an empty list of values raises \<^verbatim>\<open>IndexError\<close>, which
  it does not catch.
\<close>

definition get_remote_user_id :: "SamlConfig \<Rightarrow> AuthnResponse \<Rightarrow> string \<Rightarrow> error + string" where
  "get_remote_user_id self saml_response client_redirect_url =
     (case ava saml_response ''uid'' of
        None \<Rightarrow> Inl (SynapseError 400 (CHR 0x27 # ''uid'' @ CHR 0x27 # '' not in SAML2 response''))
      | Some [] \<Rightarrow> Inl IndexError
      | Some (v # vs) \<Rightarrow> Inr v)"

definition saml_response_to_user_attributes ::
  "SamlConfig \<Rightarrow> AuthnResponse \<Rightarrow> nat \<Rightarrow> string \<Rightarrow> error + attribute_dict" where
  "saml_response_to_user_attributes self saml_response failures client_redirect_url =
     (case ava saml_response (mxid_source_attribute self) of
        None \<Rightarrow> Inl (SynapseError 400 (mxid_source_attribute self @ '' not in SAML2 response''))
      | Some [] \<Rightarrow> Inl IndexError
      | Some (mxid_source # vs) \<Rightarrow>
          (let base_mxid_localpart = mxid_mapper self mxid_source;
               localpart = base_mxid_localpart @ (if failures \<noteq> 0 then str failures else [])
           in case ava saml_response ''displayName'' of
                Some [] \<Rightarrow> Inl IndexError
              | dn \<Rightarrow>
                  Inr \<lparr> mxid_localpart = Some localpart,
                        displayname = (case dn of None \<Rightarrow> None | Some ds \<Rightarrow> Some (hd ds)),
                        emails = Some (case ava saml_response ''email'' of None \<Rightarrow> [] | Some es \<Rightarrow> es) \<rparr>))"

section \<open>The handler (lines 51-281)\<close>

subsection \<open>Collaborators and state\<close>

text \<open>
  A pluggable mapping provider is the pair of its two methods; either may raise.
\<close>

record mapping_provider =
  mp_get_remote_user_id :: "AuthnResponse \<Rightarrow> string \<Rightarrow> error + string"
  mp_saml_response_to_user_attributes :: "AuthnResponse \<Rightarrow> nat \<Rightarrow> string \<Rightarrow> error + attribute_dict"

definition DefaultSamlMappingProvider :: "SamlConfig \<Rightarrow> mapping_provider" where
  "DefaultSamlMappingProvider parsed_config =
     \<lparr> mp_get_remote_user_id = get_remote_user_id parsed_config,
       mp_saml_response_to_user_attributes = saml_response_to_user_attributes parsed_config \<rparr>"

text \<open>
  The incoming request, of which the handler reads the query parameters by name.
\<close>

record SynapseRequest =
  args :: "string \<rightharpoonup> string"

text \<open>
  The fields of \<^verbatim>\<open>self\<close> that \<^verbatim>\<open>__init__\<close> sets once, and the collaborators.
  The request parsing (\<^verbatim>\<open>parse_string\<close> with \<^verbatim>\<open>required=True\<close>), the SAML
  client, the data store, the registration handler and the auth handler are not part of
  this file: they are parameters here, over a store \<open>'s\<close> of any type. Each returns
  \<open>Inl\<close> of the exception where the Python raises; the SAML client returns the text of
  its exception, which is all the handler uses of it. The request parsing and the two
  lookups of the data store only read; the other calls also return the store they leave
  behind, whether they succeed or not.
  \<^verbatim>\<open>get_users_by_id_case_insensitive\<close> returns a dictionary from user id to password
  hash, of which the handler reads the keys in order.
\<close>

record 's SamlHandler =
  parse_string :: "SynapseRequest \<Rightarrow> string \<Rightarrow> error + string"
  parse_authn_request_response :: "string \<Rightarrow> requests_dict \<Rightarrow> string + AuthnResponse"
  hostname :: string
  saml2_session_lifetime :: int
  grandfathered_mxid_source_attribute :: "string option"
  user_mapping_provider :: mapping_provider
  map_username_to_mxid_localpart :: "string \<Rightarrow> string"
  get_user_by_external_id :: "'s \<Rightarrow> string \<Rightarrow> string \<Rightarrow> error + string option"
  get_users_by_id_case_insensitive :: "'s \<Rightarrow> string \<Rightarrow> error + (string \<times> string) list"
  record_user_external_id :: "'s \<Rightarrow> string \<Rightarrow> string \<Rightarrow> string \<Rightarrow> (error + unit) \<times> 's"
  register_user :: "'s \<Rightarrow> string \<Rightarrow> string option \<Rightarrow> string list \<Rightarrow> (error + string) \<times> 's"
  complete_sso_ui_auth :: "'s \<Rightarrow> string \<Rightarrow> string \<Rightarrow> SynapseRequest \<Rightarrow> (error + unit) \<times> 's"
  complete_sso_login :: "'s \<Rightarrow> string \<Rightarrow> SynapseRequest \<Rightarrow> string \<Rightarrow> (error + unit) \<times> 's"

text \<open>The identifier for the external ids table (line 73).\<close>

definition auth_provider_id :: string where
  "auth_provider_id = ''saml''"

text \<open>
  Every call of a collaborator that can change something is recorded, in order, when it
  is made.
\<close>

datatype event =
    RegisterUser string "string option" "string list"
  | RecordUserExternalId string string string
  | CompleteSsoUiAuth string string
  | CompleteSsoLogin string string

text \<open>
  What changes while the handler runs: its table of outstanding requests, the store of
  the collaborators, and the calls made so far.
\<close>

record 's state =
  outstanding_requests_dict :: requests_dict
  store :: 's
  calls :: "event list"

text \<open>
  Modelled from the spec: \<^verbatim>\<open>UserID(localpart, hostname).to_string()\<close> comes from
  \<^verbatim>\<open>synapse.types\<close>, which is not among the sources; the spec writes a full local
  user id as \<^verbatim>\<open>@bob:server\<close>.
\<close>

definition UserID_to_string :: "string \<Rightarrow> string \<Rightarrow> string" where
  "UserID_to_string localpart domain = ''@'' @ localpart @ '':'' @ domain"

subsection \<open>Resolution: the three stages after the binding lookup\<close>

text \<open>
  Lines 211-232, the backwards-compatibility step. The result \<open>Inr None\<close> means that
  the code falls through to line 235.
\<close>

definition grandfather_existing_user ::
  "'s SamlHandler \<Rightarrow> AuthnResponse \<Rightarrow> string \<Rightarrow> 's state \<Rightarrow> (error + string option) \<times> 's state" where
  "grandfather_existing_user self saml2_auth remote_user_id s =
     (case grandfathered_mxid_source_attribute self of
        None \<Rightarrow> (Inr None, s)
      | Some g \<Rightarrow>
          if g = [] then (Inr None, s)
          else
            (case ava saml2_auth g of
               None \<Rightarrow> (Inr None, s)
             | Some [] \<Rightarrow> (Inl IndexError, s)
             | Some (attrval # vs) \<Rightarrow>
                 (let user_id = UserID_to_string (map_username_to_mxid_localpart self attrval) (hostname self)
                  in case get_users_by_id_case_insensitive self (store s) user_id of
                       Inl e \<Rightarrow> (Inl e, s)
                     | Inr [] \<Rightarrow> (Inr None, s)
                     | Inr (u # us) \<Rightarrow>
                         (let registered_user_id = fst u;
                              (r, st) = record_user_external_id self (store s)
                                          auth_provider_id remote_user_id registered_user_id;
                              s' = s\<lparr> store := st,
                                      calls := calls s @
                                        [RecordUserExternalId auth_provider_id remote_user_id registered_user_id] \<rparr>
                          in case r of
                               Inl e \<Rightarrow> (Inl e, s')
                             | Inr _ \<Rightarrow> (Inr (Some registered_user_id), s')))))"

text \<open>
  Lines 235-268, the loop \<^verbatim>\<open>for i in range(1000)\<close> with its \<^verbatim>\<open>else\<close> branch, as a
  recursion over the indices still to try. It returns the \<^verbatim>\<open>localpart\<close>,
  \<^verbatim>\<open>displayname\<close> and \<^verbatim>\<open>emails\<close> of the iteration that reached \<^verbatim>\<open>break\<close>.
\<close>

fun find_free_localpart ::
  "'s SamlHandler \<Rightarrow> 's \<Rightarrow> AuthnResponse \<Rightarrow> string \<Rightarrow> nat list
     \<Rightarrow> error + (string \<times> string option \<times> string list)" where
  "find_free_localpart self st saml2_auth client_redirect_url [] =
     Inl (SynapseError 500 ''Unable to generate a Matrix ID from the SAML response'')"
| "find_free_localpart self st saml2_auth client_redirect_url (i # rest) =
     (case mp_saml_response_to_user_attributes (user_mapping_provider self)
             saml2_auth i client_redirect_url of
        Inl e \<Rightarrow> Inl e
      | Inr attribute_dict \<Rightarrow>
          (case mxid_localpart attribute_dict of
             None \<Rightarrow> Inl (Exception
               ''Error parsing SAML2 response: SAML mapping provider plugin did not return a mxid_localpart value'')
           | Some localpart \<Rightarrow>
               if localpart = [] then Inl (Exception
                 ''Error parsing SAML2 response: SAML mapping provider plugin did not return a mxid_localpart value'')
               else
                 (case get_users_by_id_case_insensitive self st
                         (UserID_to_string localpart (hostname self)) of
                    Inl e \<Rightarrow> Inl e
                  | Inr users \<Rightarrow>
                      if users = []
                      then Inr (localpart, displayname attribute_dict,
                                case emails attribute_dict of None \<Rightarrow> [] | Some es \<Rightarrow> es)
                      else find_free_localpart self st saml2_auth client_redirect_url rest)))"

text \<open>Lines 235-281: the loop, then the registration, then the binding.\<close>

definition register_new_user ::
  "'s SamlHandler \<Rightarrow> AuthnResponse \<Rightarrow> string \<Rightarrow> string \<Rightarrow> 's state \<Rightarrow> (error + string) \<times> 's state" where
  "register_new_user self saml2_auth client_redirect_url remote_user_id s =
     (case find_free_localpart self (store s) saml2_auth client_redirect_url [0..<1000] of
        Inl e \<Rightarrow> (Inl e, s)
      | Inr (localpart, displayname', emails') \<Rightarrow>
          (let (r, st) = register_user self (store s) localpart displayname' emails';
               s1 = s\<lparr> store := st, calls := calls s @ [RegisterUser localpart displayname' emails'] \<rparr>
           in case r of
                Inl e \<Rightarrow> (Inl e, s1)
              | Inr registered_user_id \<Rightarrow>
                  (let (r2, st2) = record_user_external_id self (store s1)
                                     auth_provider_id remote_user_id registered_user_id;
                       s2 = s1\<lparr> store := st2,
                                calls := calls s1 @
                                  [RecordUserExternalId auth_provider_id remote_user_id registered_user_id] \<rparr>
                   in case r2 of
                        Inl e \<Rightarrow> (Inl e, s2)
                      | Inr _ \<Rightarrow> (Inr registered_user_id, s2))))"

subsection \<open>Resolution (lines 141-281)\<close>

text \<open>
  The lock of line 195 orders concurrent resolutions; one resolution runs here, so it is
  not part of the model. The \<^verbatim>\<open>pop\<close> of line 184 is the lookup together with the
  deletion.
\<close>

definition map_saml_response_to_user ::
  "'s SamlHandler \<Rightarrow> string \<Rightarrow> string \<Rightarrow> 's state
     \<Rightarrow> (error + (string \<times> Saml2SessionData option)) \<times> 's state" where
  "map_saml_response_to_user self resp_bytes client_redirect_url s =
     (case parse_authn_request_response self resp_bytes (outstanding_requests_dict s) of
        Inl e \<Rightarrow> (Inl (SynapseError 400 (''Unable to parse SAML2 response: '' @ e)), s)
      | Inr saml2_auth \<Rightarrow>
          if not_signed saml2_auth
          then (Inl (SynapseError 400 ''SAML2 response was not signed''), s)
          else
            (let current_session = map_of (outstanding_requests_dict s) (in_response_to saml2_auth);
                 s1 = s\<lparr> outstanding_requests_dict :=
                           AList.delete (in_response_to saml2_auth) (outstanding_requests_dict s) \<rparr>
             in case mp_get_remote_user_id (user_mapping_provider self) saml2_auth client_redirect_url of
                  Inl e \<Rightarrow> (Inl e, s1)
                | Inr remote_user_id \<Rightarrow>
                    if remote_user_id = []
                    then (Inl (Exception ''Failed to extract remote user id from SAML response''), s1)
                    else
                      (case get_user_by_external_id self (store s1) auth_provider_id remote_user_id of
                         Inl e \<Rightarrow> (Inl e, s1)
                       | Inr (Some registered_user_id) \<Rightarrow> (Inr (registered_user_id, current_session), s1)
                       | Inr None \<Rightarrow>
                           (case grandfather_existing_user self saml2_auth remote_user_id s1 of
                              (Inl e, s2) \<Rightarrow> (Inl e, s2)
                            | (Inr (Some registered_user_id), s2) \<Rightarrow>
                                (Inr (registered_user_id, current_session), s2)
                            | (Inr None, s2) \<Rightarrow>
                                (case register_new_user self saml2_auth client_redirect_url remote_user_id s2 of
                                   (Inl e, s3) \<Rightarrow> (Inl e, s3)
                                 | (Inr registered_user_id, s3) \<Rightarrow>
                                     (Inr (registered_user_id, current_session), s3))))))"

subsection \<open>The response endpoint (lines 111-139)\<close>


section \<open>A store in memory, for concrete runs\<close>

text \<open>
  Modelled from the spec: the request parsing, the account store, the registration
  collaborator and the login completion are not among the sources. The spec gives their interface: a binding lookup by provider and
  external id, a case-insensitive lookup of accounts that returns a mapping from local
  user id to account record, the creation of a binding, and the provisioning of an
  account that returns the new local user id. The definitions below are the plainest
  store with that interface. The theorems about the handler hold for every collaborator;
  these definitions only supply concrete runs.
\<close>

record mem_store =
  external_ids :: "((string \<times> string) \<times> string) list"
  users :: "(string \<times> string) list"

definition mem_get_user_by_external_id :: "mem_store \<Rightarrow> string \<Rightarrow> string \<Rightarrow> error + string option" where
  "mem_get_user_by_external_id st provider external_id =
     Inr (map_of (external_ids st) (provider, external_id))"

definition mem_get_users_by_id_case_insensitive ::
  "mem_store \<Rightarrow> string \<Rightarrow> error + (string \<times> string) list" where
  "mem_get_users_by_id_case_insensitive st user_id =
     Inr (filter (\<lambda>(u, h). lower u = lower user_id) (users st))"

definition mem_record_user_external_id ::
  "mem_store \<Rightarrow> string \<Rightarrow> string \<Rightarrow> string \<Rightarrow> (error + unit) \<times> mem_store" where
  "mem_record_user_external_id st provider external_id user_id =
     (Inr (), st\<lparr> external_ids := external_ids st @ [((provider, external_id), user_id)] \<rparr>)"

definition mem_register_user ::
  "mem_store \<Rightarrow> string \<Rightarrow> string option \<Rightarrow> string list \<Rightarrow> (error + string) \<times> mem_store" where
  "mem_register_user st localpart default_display_name bind_emails =
     (Inr (UserID_to_string localpart ''server''),
      st\<lparr> users := users st @ [(UserID_to_string localpart ''server'', [])] \<rparr>)"

definition mem_complete_sso_ui_auth ::
  "mem_store \<Rightarrow> string \<Rightarrow> string \<Rightarrow> SynapseRequest \<Rightarrow> (error + unit) \<times> mem_store" where
  "mem_complete_sso_ui_auth st user_id session_id request = (Inr (), st)"

definition mem_complete_sso_login ::
  "mem_store \<Rightarrow> string \<Rightarrow> SynapseRequest \<Rightarrow> string \<Rightarrow> (error + unit) \<times> mem_store" where
  "mem_complete_sso_login st user_id request client_redirect_url = (Inr (), st)"

text \<open>
  The request parsing returns the parameter, or fails with a 400 when the request does
  not have it.
\<close>

definition mem_parse_string :: "SynapseRequest \<Rightarrow> string \<Rightarrow> error + string" where
  "mem_parse_string request name =
     (case args request name of
        None \<Rightarrow> Inl (SynapseError 400 (''Missing string query parameter '' @ name))
      | Some v \<Rightarrow> Inr v)"

text \<open>
  A handler on that store, with the default mapping provider on \<^verbatim>\<open>uid\<close> and the
  dot-replace policy. The parser gives the same answer \<open>parsed\<close> for every input. In
  place of the hex-encode policy, which is not among the sources either, stands
  \<open>lower\<close>: the examples only normalise names made of letters.
\<close>

definition example_config :: SamlConfig where
  "example_config =
     \<lparr> mxid_source_attribute = ''uid'',
       mxid_mapper = dot_replace_for_mxid mxid_localpart_allowed_characters \<rparr>"

definition example_handler :: "string + AuthnResponse \<Rightarrow> string option \<Rightarrow> mem_store SamlHandler" where
  "example_handler parsed grandfathered =
     \<lparr> parse_string = mem_parse_string,
       parse_authn_request_response = (\<lambda>resp_bytes outstanding. parsed),
       hostname = ''server'',
       saml2_session_lifetime = 300000,
       grandfathered_mxid_source_attribute = grandfathered,
       user_mapping_provider = DefaultSamlMappingProvider example_config,
       map_username_to_mxid_localpart = lower,
       get_user_by_external_id = mem_get_user_by_external_id,
       get_users_by_id_case_insensitive = mem_get_users_by_id_case_insensitive,
       record_user_external_id = mem_record_user_external_id,
       register_user = mem_register_user,
       complete_sso_ui_auth = mem_complete_sso_ui_auth,
       complete_sso_login = mem_complete_sso_login \<rparr>"

text \<open>A signed response for the external user \<^verbatim>\<open>alice\<close>, answering the request \<open>irt\<close>.\<close>

definition alice_response :: "string \<Rightarrow> AuthnResponse" where
  "alice_response irt =
     \<lparr> not_signed = False, ava = [''uid'' \<mapsto> [''alice'']], in_response_to = irt \<rparr>"

definition pending_session :: Saml2SessionData where
  "pending_session = \<lparr> creation_time = 1000, ui_auth_session_id = None \<rparr>"



text \<open>A store in which \<^verbatim>\<open>alice\<close> and \<^verbatim>\<open>alice1\<close> to \<^verbatim>\<open>alice5\<close> are taken, one of them in capitals.\<close>

definition taken_store :: mem_store where
  "taken_store = \<lparr> external_ids = [],
     users = [(''@alice:server'', []), (''@alice1:server'', []), (''@alice2:server'', []),
              (''@Alice3:server'', []), (''@alice4:server'', []), (''@alice5:server'', [])] \<rparr>"

text \<open>A handler whose account lookup finds an account under every id.\<close>

definition full_handler :: "mem_store SamlHandler" where
  "full_handler = (example_handler (Inr (alice_response ''r'')) None)
     \<lparr> get_users_by_id_case_insensitive := (\<lambda>st user_id. Inr [(user_id, [])]) \<rparr>"

text \<open>A store in which the external user \<^verbatim>\<open>alice\<close> is bound to an account.\<close>

definition bound_store :: mem_store where
  "bound_store = \<lparr> external_ids = [((''saml'', ''alice''), ''@alice:server'')],
                    users = [(''@alice:server'', [])] \<rparr>"



text \<open>
  A response for an external user who also carries the legacy attribute
  \<^verbatim>\<open>legacy_uid = Bob\<close>, a store with two accounts that differ in case only, and one
  with a single account.
\<close>

definition bob_response :: "string \<Rightarrow> AuthnResponse" where
  "bob_response irt =
     \<lparr> not_signed = False,
       ava = [''uid'' \<mapsto> [''bob-ext''], ''legacy_uid'' \<mapsto> [''Bob'']],
       in_response_to = irt \<rparr>"

definition two_bobs_store :: mem_store where
  "two_bobs_store = \<lparr> external_ids = [], users = [(''@Bob:server'', []), (''@bob:server'', [])] \<rparr>"

definition one_bob_store :: mem_store where
  "one_bob_store = \<lparr> external_ids = [], users = [(''@bob:server'', [])] \<rparr>"

text \<open>A handler whose registration always fails, and a store with nothing in it.\<close>

definition failing_handler :: "mem_store SamlHandler" where
  "failing_handler = (example_handler (Inr (alice_response ''r'')) None)
     \<lparr> register_user := (\<lambda>st localpart display_name bind_emails.
          (Inl (SynapseError 400 ''User ID already taken.''), st)) \<rparr>"

definition empty_store :: mem_store where
  "empty_store = \<lparr> external_ids = [], users = [] \<rparr>"

text \<open>A signed response whose \<^verbatim>\<open>displayName\<close> attribute has no value.\<close>

definition nameless_response :: "string \<Rightarrow> AuthnResponse" where
  "nameless_response irt =
     \<lparr> not_signed = False,
       ava = [''uid'' \<mapsto> [''alice''], ''displayName'' \<mapsto> []],
       in_response_to = irt \<rparr>"


section \<open>Properties of the expiry sweep\<close>

lemma fold_delete_filter:
  "fold AList.delete ks al = filter (\<lambda>(k, v). k \<notin> set ks) al"
  by (induction ks arbitrary: al) (auto simp: AList.delete_eq intro: filter_cong)

text \<open>
  C4, as the claim states it, fails: the claim has the sweep remove the entries with
  \<open>creation_time \<le> now - lifetime\<close>, and an entry created exactly \<open>lifetime\<close> ago
  stays in the table.
\<close>

theorem expire_sessions_boundary_counterexample:
  "creation_time \<lparr>creation_time = 5, ui_auth_session_id = None\<rparr> \<le> 10 - 5 \<and>
   map_of (expire_sessions 10 5 [(''r'', \<lparr>creation_time = 5, ui_auth_session_id = None\<rparr>)]) ''r''
     = Some \<lparr>creation_time = 5, ui_auth_session_id = None\<rparr>"
  by (simp add: expire_sessions_def)

text \<open>
  C4, amended: for every \<open>now\<close>, every \<open>lifetime\<close> and every table of pending sessions
  (a dictionary, so its keys are distinct), the sweep removes exactly the entries with
  \<open>creation_time < now - lifetime\<close> and leaves every other entry as it was, in the
  order it was.
\<close>

theorem expire_sessions_removes_strictly_older:
  assumes "distinct (map fst outstanding)"
  shows "expire_sessions now lifetime outstanding =
     filter (\<lambda>(reqid, data). \<not> creation_time data < now - lifetime) outstanding"
proof -
  have "\<And>k v. (k, v) \<in> set outstanding \<Longrightarrow>
     (k \<notin> fst ` {x \<in> set outstanding. case x of (r, d) \<Rightarrow> creation_time d < now - lifetime})
       = (\<not> creation_time v < now - lifetime)"
    using assms by (force dest: eq_key_imp_eq_value)
  then show ?thesis
    unfolding expire_sessions_def Let_def fold_delete_filter
    by (auto intro!: filter_cong)
qed

theorem expire_sessions_removes_strictly_older_witness:
  "distinct (map fst [(''a'', \<lparr>creation_time = 4, ui_auth_session_id = None\<rparr>),
                      (''b'', \<lparr>creation_time = 5, ui_auth_session_id = Some ''ui''\<rparr>),
                      (''c'', \<lparr>creation_time = 6, ui_auth_session_id = None\<rparr>)]) \<and>
   expire_sessions 10 5 [(''a'', \<lparr>creation_time = 4, ui_auth_session_id = None\<rparr>),
                         (''b'', \<lparr>creation_time = 5, ui_auth_session_id = Some ''ui''\<rparr>),
                         (''c'', \<lparr>creation_time = 6, ui_auth_session_id = None\<rparr>)]
     = [(''b'', \<lparr>creation_time = 5, ui_auth_session_id = Some ''ui''\<rparr>),
        (''c'', \<lparr>creation_time = 6, ui_auth_session_id = None\<rparr>)]"
  using expire_sessions_removes_strictly_older
    [of "[(''a'', \<lparr>creation_time = 4, ui_auth_session_id = None\<rparr>),
          (''b'', \<lparr>creation_time = 5, ui_auth_session_id = Some ''ui''\<rparr>),
          (''c'', \<lparr>creation_time = 6, ui_auth_session_id = None\<rparr>)]" 10 5]
  by simp

section \<open>Properties of the dot-replace policy\<close>

lemma lower_char_idem: "lower_char (lower_char c) = lower_char c"
proof (cases "65 \<le> (of_char c :: nat) \<and> (of_char c :: nat) \<le> 90")
  case True
  then have "(of_char (char_of (of_char c + 32 :: nat)) :: nat) = of_char c + 32"
    by simp
  with True show ?thesis by (simp add: lower_char_def Let_def)
next
  case False
  then show ?thesis by (auto simp add: lower_char_def Let_def)
qed

lemma lower_char_dot: "lower_char CHR ''.'' = CHR ''.''"
  by (simp add: lower_char_def)

text \<open>
  Lower-casing and replacing leave every string alone that is made of characters of a
  string they produced.
\<close>

lemma sub_lower_fixed:
  "set ys \<subseteq> set (DOT_REPLACE_PATTERN_sub allowed (lower x)) \<Longrightarrow>
   DOT_REPLACE_PATTERN_sub allowed (lower ys) = ys"
  by (induction ys) (auto simp: DOT_REPLACE_PATTERN_sub_def lower_def lower_char_idem lower_char_dot)

lemma set_strip_leading_underscore: "set (strip_leading_underscore s) \<subseteq> set s"
  by (cases s) auto

text \<open>Applied a second time, the policy only strips one more underscore.\<close>

lemma dot_replace_for_mxid_twice:
  "dot_replace_for_mxid allowed (dot_replace_for_mxid allowed x) =
   strip_leading_underscore (dot_replace_for_mxid allowed x)"
  unfolding dot_replace_for_mxid_def
  by (simp add: sub_lower_fixed [OF set_strip_leading_underscore])

lemma strip_leading_underscore_id: "take 1 s \<noteq> ''_'' \<Longrightarrow> strip_leading_underscore s = s"
  by (cases s) auto

text \<open>
  Whenever the allowed set has the underscore in it, as the stripping step takes for
  granted, an input that begins with two underscores is normalised to a string that the
  policy changes again.
\<close>

lemma dot_replace_for_mxid_two_underscores:
  assumes "CHR ''_'' \<in> allowed"
  shows "dot_replace_for_mxid allowed (dot_replace_for_mxid allowed (''__'' @ x))
           \<noteq> dot_replace_for_mxid allowed (''__'' @ x)"
proof -
  let ?rest = "DOT_REPLACE_PATTERN_sub allowed (lower x)"
  have u: "lower_char CHR ''_'' = CHR ''_''"
    by (simp add: lower_char_def)
  have once: "dot_replace_for_mxid allowed (CHR ''_'' # CHR ''_'' # x) = CHR ''_'' # ?rest"
    using assms by (simp add: dot_replace_for_mxid_def DOT_REPLACE_PATTERN_sub_def lower_def u)
  have "dot_replace_for_mxid allowed (dot_replace_for_mxid allowed (CHR ''_'' # CHR ''_'' # x)) = ?rest"
    by (subst dot_replace_for_mxid_twice) (simp add: once)
  then have "dot_replace_for_mxid allowed (dot_replace_for_mxid allowed (CHR ''_'' # CHR ''_'' # x))
      \<noteq> CHR ''_'' # ?rest"
    by simp
  then have "dot_replace_for_mxid allowed (dot_replace_for_mxid allowed (CHR ''_'' # CHR ''_'' # x))
      \<noteq> dot_replace_for_mxid allowed (CHR ''_'' # CHR ''_'' # x)"
    by (subst (2) once)
  then show ?thesis by simp
qed

text \<open>
  Where the normalised form does not begin with an underscore, normalising it again gives
  it back. With the lemma before, the policy is idempotent at exactly those inputs.
\<close>

lemma dot_replace_for_mxid_idempotent_without_leading_underscore:
  assumes "take 1 (dot_replace_for_mxid allowed x) \<noteq> ''_''"
  shows "dot_replace_for_mxid allowed (dot_replace_for_mxid allowed x) = dot_replace_for_mxid allowed x"
  using assms by (simp add: dot_replace_for_mxid_twice strip_leading_underscore_id)

text \<open>
  C9: the policy is to be idempotent, \<open>normalize (normalize x) = normalize x\<close> for every
  \<open>x\<close>. The code is not: line 305 strips one leading underscore and leaves a second one
  in place, against its own comment that an mxid may not begin with an underscore. The
  input \<^verbatim>\<open>__a\<close> is normalised to \<^verbatim>\<open>_a\<close>, and \<^verbatim>\<open>_a\<close> to \<^verbatim>\<open>a\<close>.
\<close>

theorem dot_replace_for_mxid_keeps_leading_underscore:
  "dot_replace_for_mxid mxid_localpart_allowed_characters ''__a'' = ''_a'' \<and>
   dot_replace_for_mxid mxid_localpart_allowed_characters
     (dot_replace_for_mxid mxid_localpart_allowed_characters ''__a'') = ''a'' \<and>
   dot_replace_for_mxid mxid_localpart_allowed_characters
     (dot_replace_for_mxid mxid_localpart_allowed_characters ''__a'')
   \<noteq> dot_replace_for_mxid mxid_localpart_allowed_characters ''__a''"
  by code_simp

section \<open>Properties of the default mapping provider\<close>

text \<open>\<open>str\<close> writes a number in decimal: its digits, read back, give the number.\<close>

lemma of_char_digit_char: "d < 10 \<Longrightarrow> (of_char (digit_char d) :: nat) = 48 + d"
  by (simp add: digit_char_def)

lemma decimal_value_str: "foldl (\<lambda>a c. 10 * a + ((of_char c :: nat) - 48)) 0 (str n) = n"
proof (induction n rule: str.induct)
  case (1 n)
  show ?case
  proof (cases "n < 10")
    case True
    then show ?thesis by (subst str.simps) (simp add: of_char_digit_char)
  next
    case False
    with 1 show ?thesis by (subst str.simps) (simp add: of_char_digit_char)
  qed
qed

lemma str_digits: "set (str n) \<subseteq> set ''0123456789''"
proof (induction n rule: str.induct)
  case (1 n)
  have "\<forall>d\<in>set [0..<10]. digit_char d \<in> set ''0123456789''"
    by code_simp
  then have d: "\<And>d. d < 10 \<Longrightarrow> digit_char d \<in> set ''0123456789''"
    by (metis atLeastLessThan_iff le0 set_upt)
  show ?case
  proof (cases "n < 10")
    case True
    then show ?thesis using d[of n] by (subst str.simps) simp
  next
    case False
    with 1 d[of "n mod 10"] show ?thesis by (subst str.simps) simp
  qed
qed

text \<open>
  C10: for every configuration, \<^verbatim>\<open>get_remote_user_id\<close> returns the first value of
  the attribute \<^verbatim>\<open>uid\<close>, and fails with a 400 when the assertion has no \<^verbatim>\<open>uid\<close>;
  two configurations give the same answer, so \<^verbatim>\<open>mxid_source_attribute\<close> has no
  part in it.
\<close>

theorem get_remote_user_id_reads_uid:
  "(\<forall>v vs. ava saml_response ''uid'' = Some (v # vs) \<longrightarrow>
       get_remote_user_id cfg saml_response url = Inr v) \<and>
   (ava saml_response ''uid'' = None \<longrightarrow>
       get_remote_user_id cfg saml_response url =
         Inl (SynapseError 400 (CHR 0x27 # ''uid'' @ CHR 0x27 # '' not in SAML2 response''))) \<and>
   get_remote_user_id cfg saml_response url = get_remote_user_id cfg' saml_response url"
  by (simp add: get_remote_user_id_def)

theorem get_remote_user_id_reads_uid_witness:
  "ava (alice_response ''r'') ''uid'' = Some [''alice''] \<and>
   get_remote_user_id example_config (alice_response ''r'') ''url'' = Inr ''alice'' \<and>
   get_remote_user_id (example_config\<lparr>mxid_source_attribute := ''mail''\<rparr>) (alice_response ''r'') ''url''
     = Inr ''alice'' \<and>
   ava ((alice_response ''r'')\<lparr>ava := Map.empty\<rparr>) ''uid'' = None \<and>
   get_remote_user_id example_config ((alice_response ''r'')\<lparr>ava := Map.empty\<rparr>) ''url''
     = Inl (SynapseError 400 (CHR 0x27 # ''uid'' @ CHR 0x27 # '' not in SAML2 response''))"
  using get_remote_user_id_reads_uid
      [of "alice_response ''r''" example_config "''url''" "example_config\<lparr>mxid_source_attribute := ''mail''\<rparr>"]
    get_remote_user_id_reads_uid
      [of "(alice_response ''r'')\<lparr>ava := Map.empty\<rparr>" example_config "''url''" example_config]
  by (auto simp add: alice_response_def)

text \<open>
  The digits of \<open>str n\<close> are decimal digits, there is at least one, and the first is
  not a zero unless the number is zero; with \<open>decimal_value_str\<close>, \<open>str n\<close> is the
  decimal numeral of \<open>n\<close>.
\<close>

lemma digit_char_not_zero: "0 < d \<Longrightarrow> d < 10 \<Longrightarrow> digit_char d \<noteq> CHR ''0''"
proof -
  have "\<forall>d\<in>set [1..<10]. digit_char d \<noteq> CHR ''0''"
    by code_simp
  then show "0 < d \<Longrightarrow> d < 10 \<Longrightarrow> digit_char d \<noteq> CHR ''0''"
    by (metis One_nat_def Suc_leI atLeastLessThan_iff set_upt)
qed

lemma str_not_empty: "str n \<noteq> []"
  by (subst str.simps) simp

lemma str_no_leading_zero: "0 < n \<Longrightarrow> hd (str n) \<noteq> CHR ''0''"
proof (induction n rule: str.induct)
  case (1 n)
  show ?case
  proof (cases "n < 10")
    case True
    with "1.prems" show ?thesis
      by (subst str.simps) (simp add: digit_char_not_zero)
  next
    case False
    then have "0 < n div 10" by simp
    with False "1.IH" have "hd (str (n div 10)) \<noteq> CHR ''0''" by simp
    with False show ?thesis
      by (subst str.simps) (simp add: str_not_empty)
  qed
qed

lemma str_examples:
  "str 0 = ''0''" "str 7 = ''7''" "str 10 = ''10''" "str 42 = ''42''" "str 123 = ''123''" "str 999 = ''999''"
  by code_simp+


text \<open>
  For every assertion that has a value \<open>v\<close> for the configured source attribute and every
  attempt index \<open>i\<close>: whenever the mapper returns its attributes, the candidate is the
  normalised \<open>v\<close>, bare for \<open>i = 0\<close> and followed by the decimal numeral of \<open>i\<close> for
  \<open>i > 0\<close>. It does return them unless the assertion carries a \<^verbatim>\<open>displayName\<close>
  attribute with no value.
\<close>

lemma saml_response_to_user_attributes_candidate:
  assumes "ava saml_response (mxid_source_attribute cfg) = Some (v # vs)"
  shows "(\<forall>a. saml_response_to_user_attributes cfg saml_response i url = Inr a \<longrightarrow>
            (\<exists>suffix. mxid_localpart a = Some (mxid_mapper cfg v @ suffix) \<and>
               (i = 0 \<longrightarrow> suffix = []) \<and>
               (0 < i \<longrightarrow> suffix \<noteq> [] \<and> set suffix \<subseteq> set ''0123456789'' \<and>
                  hd suffix \<noteq> CHR ''0'' \<and>
                  foldl (\<lambda>acc c. 10 * acc + ((of_char c :: nat) - 48)) 0 suffix = i))) \<and>
         (ava saml_response ''displayName'' \<noteq> Some [] \<longrightarrow>
            (\<exists>a. saml_response_to_user_attributes cfg saml_response i url = Inr a))"
proof (intro conjI allI impI)
  fix a
  assume "saml_response_to_user_attributes cfg saml_response i url = Inr a"
  with assms have "mxid_localpart a = Some (mxid_mapper cfg v @ (if i \<noteq> 0 then str i else []))"
    by (auto simp: saml_response_to_user_attributes_def Let_def split: option.splits list.splits)
  then show "\<exists>suffix. mxid_localpart a = Some (mxid_mapper cfg v @ suffix) \<and>
               (i = 0 \<longrightarrow> suffix = []) \<and>
               (0 < i \<longrightarrow> suffix \<noteq> [] \<and> set suffix \<subseteq> set ''0123456789'' \<and>
                  hd suffix \<noteq> CHR ''0'' \<and>
                  foldl (\<lambda>acc c. 10 * acc + ((of_char c :: nat) - 48)) 0 suffix = i)"
    using str_not_empty [of i] str_digits [of i] str_no_leading_zero [of i] decimal_value_str [of i]
    by (cases "i = 0") auto
next
  assume "ava saml_response ''displayName'' \<noteq> Some []"
  with assms show "\<exists>a. saml_response_to_user_attributes cfg saml_response i url = Inr a"
    by (auto simp: saml_response_to_user_attributes_def Let_def split: option.splits list.splits)
qed

text \<open>
  C8: for every assertion that has the configured source attribute, the candidate is to
  be the normalised value with the decimal attempt index appended. The code has no
  candidate for an assertion whose \<^verbatim>\<open>displayName\<close> attribute has no value: line 389
  takes the first element of the empty list, and the mapper raises \<^verbatim>\<open>IndexError\<close>
  at every attempt index, although \<^verbatim>\<open>uid = alice\<close> is there.
\<close>

theorem saml_response_to_user_attributes_empty_displayname:
  "ava (nameless_response ''r'') (mxid_source_attribute example_config) = Some [''alice''] \<and>
   saml_response_to_user_attributes example_config (nameless_response ''r'') 0 ''url'' = Inl IndexError \<and>
   saml_response_to_user_attributes example_config (nameless_response ''r'') 6 ''url'' = Inl IndexError"
  by (simp add: saml_response_to_user_attributes_def nameless_response_def example_config_def)

section \<open>Properties of the resolution\<close>

subsection \<open>The collision loop\<close>

lemma find_free_localpart_skip:
  assumes "\<forall>i\<in>set pre. \<exists>a lp us.
      mp_saml_response_to_user_attributes (user_mapping_provider self) auth i url = Inr a \<and>
      mxid_localpart a = Some lp \<and> lp \<noteq> [] \<and>
      get_users_by_id_case_insensitive self st (UserID_to_string lp (hostname self)) = Inr us \<and> us \<noteq> []"
  shows "find_free_localpart self st auth url (pre @ rest) = find_free_localpart self st auth url rest"
  using assms by (induction pre) auto

lemma find_free_localpart_exhausted:
  assumes "\<forall>i<n. \<exists>a lp us.
      mp_saml_response_to_user_attributes (user_mapping_provider self) auth i url = Inr a \<and>
      mxid_localpart a = Some lp \<and> lp \<noteq> [] \<and>
      get_users_by_id_case_insensitive self st (UserID_to_string lp (hostname self)) = Inr us \<and> us \<noteq> []"
  shows "find_free_localpart self st auth url [0..<n] =
      Inl (SynapseError 500 ''Unable to generate a Matrix ID from the SAML response'')"
proof -
  have "find_free_localpart self st auth url ([0..<n] @ []) = find_free_localpart self st auth url []"
    by (rule find_free_localpart_skip) (use assms in simp)
  then show ?thesis by simp
qed

lemma find_free_localpart_found:
  assumes "k < n"
    and "\<forall>i<k. \<exists>a lp us.
      mp_saml_response_to_user_attributes (user_mapping_provider self) auth i url = Inr a \<and>
      mxid_localpart a = Some lp \<and> lp \<noteq> [] \<and>
      get_users_by_id_case_insensitive self st (UserID_to_string lp (hostname self)) = Inr us \<and> us \<noteq> []"
    and "mp_saml_response_to_user_attributes (user_mapping_provider self) auth k url = Inr a"
    and "mxid_localpart a = Some lp" and "lp \<noteq> []"
    and "get_users_by_id_case_insensitive self st (UserID_to_string lp (hostname self)) = Inr []"
  shows "find_free_localpart self st auth url [0..<n] =
      Inr (lp, displayname a, case emails a of None \<Rightarrow> [] | Some es \<Rightarrow> es)"
proof -
  from assms(1) obtain d where d: "n = k + d" "0 < d"
    using less_imp_add_positive by metis
  have "[0..<k + d] = [0..<k] @ [k..<k + d]"
    by (rule upt_add_eq_append) simp
  with d have split: "[0..<n] = [0..<k] @ k # [Suc k..<n]"
    by (simp add: upt_conv_Cons)
  have "find_free_localpart self st auth url ([0..<k] @ k # [Suc k..<n]) =
      find_free_localpart self st auth url (k # [Suc k..<n])"
    by (rule find_free_localpart_skip) (use assms(2) in simp)
  with split assms(3-6) show ?thesis by simp
qed


text \<open>When the legacy step falls through, it has changed nothing.\<close>

lemma grandfather_None:
  "grandfather_existing_user self auth rid s = (Inr None, s') \<Longrightarrow> s' = s"
  by (auto simp: grandfather_existing_user_def Let_def
      split: option.splits list.splits sum.splits prod.splits if_splits)

lemma grandfather_fst_None:
  "fst (grandfather_existing_user self auth rid s) = Inr None \<Longrightarrow>
   grandfather_existing_user self auth rid s = (Inr None, s)"
  using grandfather_None [of self auth rid s] by (cases "grandfather_existing_user self auth rid s") auto

text \<open>
  C1: in a resolution that reaches fresh provisioning (the response is parsed and signed,
  it names an external user without a binding, and the legacy step finds nothing), the
  attempt indices are tried from 0 up, each with a call of the mapper and a
  case-insensitive lookup of its candidate. If the candidates of all indices below \<open>k\<close>
  have accounts, then: with \<open>k = 1000\<close> the resolution fails with the 500 error, having
  written nothing; with \<open>k < 1000\<close> and no account under the candidate of \<open>k\<close>, it is
  this candidate, the first free one, that the resolution registers and binds.
\<close>

theorem fresh_provisioning_first_free:
  assumes "parse_authn_request_response self resp_bytes (outstanding_requests_dict s) = Inr saml2_auth"
    and "\<not> not_signed saml2_auth"
    and "mp_get_remote_user_id (user_mapping_provider self) saml2_auth url = Inr remote_user_id"
    and "remote_user_id \<noteq> []"
    and "get_user_by_external_id self (store s) auth_provider_id remote_user_id = Inr None"
    and "fst (grandfather_existing_user self saml2_auth remote_user_id
           (s\<lparr> outstanding_requests_dict :=
                 AList.delete (in_response_to saml2_auth) (outstanding_requests_dict s) \<rparr>)) = Inr None"
    and "k \<le> 1000"
    and "\<forall>i<k. \<exists>a lp us.
      mp_saml_response_to_user_attributes (user_mapping_provider self) saml2_auth i url = Inr a \<and>
      mxid_localpart a = Some lp \<and> lp \<noteq> [] \<and>
      get_users_by_id_case_insensitive self (store s) (UserID_to_string lp (hostname self)) = Inr us \<and>
      us \<noteq> []"
  shows "(k = 1000 \<longrightarrow>
            map_saml_response_to_user self resp_bytes url s =
              (Inl (SynapseError 500 ''Unable to generate a Matrix ID from the SAML response''),
               s\<lparr> outstanding_requests_dict :=
                     AList.delete (in_response_to saml2_auth) (outstanding_requests_dict s) \<rparr>)) \<and>
         (\<forall>a lp. k < 1000 \<and>
            mp_saml_response_to_user_attributes (user_mapping_provider self) saml2_auth k url = Inr a \<and>
            mxid_localpart a = Some lp \<and> lp \<noteq> [] \<and>
            get_users_by_id_case_insensitive self (store s) (UserID_to_string lp (hostname self)) = Inr [] \<longrightarrow>
            map_saml_response_to_user self resp_bytes url s =
              (case register_user self (store s) lp (displayname a)
                      (case emails a of None \<Rightarrow> [] | Some es \<Rightarrow> es) of
                 (Inl e, st) \<Rightarrow>
                   (Inl e,
                    s\<lparr> outstanding_requests_dict :=
                          AList.delete (in_response_to saml2_auth) (outstanding_requests_dict s),
                        store := st,
                        calls := calls s @
                          [RegisterUser lp (displayname a)
                             (case emails a of None \<Rightarrow> [] | Some es \<Rightarrow> es)] \<rparr>)
               | (Inr registered_user_id, st) \<Rightarrow>
                   (case fst (record_user_external_id self st auth_provider_id
                                remote_user_id registered_user_id) of
                      Inl e \<Rightarrow> Inl e
                    | Inr _ \<Rightarrow>
                        Inr (registered_user_id,
                             map_of (outstanding_requests_dict s) (in_response_to saml2_auth)),
                    s\<lparr> outstanding_requests_dict :=
                          AList.delete (in_response_to saml2_auth) (outstanding_requests_dict s),
                        store := snd (record_user_external_id self st auth_provider_id
                                        remote_user_id registered_user_id),
                        calls := calls s @
                          [RegisterUser lp (displayname a)
                             (case emails a of None \<Rightarrow> [] | Some es \<Rightarrow> es),
                           RecordUserExternalId auth_provider_id remote_user_id
                             registered_user_id] \<rparr>)))"
proof (intro conjI impI allI)
  let ?s1 = "s\<lparr> outstanding_requests_dict :=
                 AList.delete (in_response_to saml2_auth) (outstanding_requests_dict s) \<rparr>"
  have g: "grandfather_existing_user self saml2_auth remote_user_id ?s1 = (Inr None, ?s1)"
    using assms(6) by (rule grandfather_fst_None)
  {
    assume "k = 1000"
    with assms(8) have "find_free_localpart self (store s) saml2_auth url [0..<1000] =
        Inl (SynapseError 500 ''Unable to generate a Matrix ID from the SAML response'')"
      by (blast intro: find_free_localpart_exhausted)
    with assms(1-5) g
    show "map_saml_response_to_user self resp_bytes url s =
        (Inl (SynapseError 500 ''Unable to generate a Matrix ID from the SAML response''), ?s1)"
      by (simp add: map_saml_response_to_user_def register_new_user_def)
  }
  fix a lp
  assume free: "k < 1000 \<and>
     mp_saml_response_to_user_attributes (user_mapping_provider self) saml2_auth k url = Inr a \<and>
     mxid_localpart a = Some lp \<and> lp \<noteq> [] \<and>
     get_users_by_id_case_insensitive self (store s) (UserID_to_string lp (hostname self)) = Inr []"
  with assms(8) have "find_free_localpart self (store s) saml2_auth url [0..<1000] =
      Inr (lp, displayname a, case emails a of None \<Rightarrow> [] | Some es \<Rightarrow> es)"
    by (blast intro: find_free_localpart_found)
  with assms(1-5) g
  show "map_saml_response_to_user self resp_bytes url s =
      (case register_user self (store s) lp (displayname a)
              (case emails a of None \<Rightarrow> [] | Some es \<Rightarrow> es) of
         (Inl e, st) \<Rightarrow>
           (Inl e,
            s\<lparr> outstanding_requests_dict :=
                  AList.delete (in_response_to saml2_auth) (outstanding_requests_dict s),
                store := st,
                calls := calls s @
                  [RegisterUser lp (displayname a)
                     (case emails a of None \<Rightarrow> [] | Some es \<Rightarrow> es)] \<rparr>)
       | (Inr registered_user_id, st) \<Rightarrow>
           (case fst (record_user_external_id self st auth_provider_id
                        remote_user_id registered_user_id) of
              Inl e \<Rightarrow> Inl e
            | Inr _ \<Rightarrow>
                Inr (registered_user_id,
                     map_of (outstanding_requests_dict s) (in_response_to saml2_auth)),
            s\<lparr> outstanding_requests_dict :=
                  AList.delete (in_response_to saml2_auth) (outstanding_requests_dict s),
                store := snd (record_user_external_id self st auth_provider_id
                                remote_user_id registered_user_id),
                calls := calls s @
                  [RegisterUser lp (displayname a)
                     (case emails a of None \<Rightarrow> [] | Some es \<Rightarrow> es),
                   RecordUserExternalId auth_provider_id remote_user_id
                     registered_user_id] \<rparr>))"
    by (simp add: map_saml_response_to_user_def register_new_user_def Let_def
        split: prod.splits sum.splits)
qed

lemma str_1_to_6: "str (Suc 0) = ''1''" "str 2 = ''2''" "str 3 = ''3''" "str 4 = ''4''" "str 5 = ''5''" "str 6 = ''6''"
  by code_simp+

lemma norm_alice: "dot_replace_for_mxid mxid_localpart_allowed_characters ''alice'' = ''alice''"
  by code_simp

lemma alice_attempt:
  "saml_response_to_user_attributes example_config (alice_response r) i url =
   Inr \<lparr> mxid_localpart = Some (''alice'' @ (if i \<noteq> 0 then str i else [])), displayname = None, emails = Some [] \<rparr>"
  by (simp add: saml_response_to_user_attributes_def example_config_def alice_response_def norm_alice)


theorem fresh_provisioning_first_free_witness:
  "map_saml_response_to_user (example_handler (Inr (alice_response ''r'')) None) ''bytes'' ''url''
      \<lparr> outstanding_requests_dict = [(''r'', pending_session)], store = taken_store, calls = [] \<rparr> =
     (Inr (''@alice6:server'', Some pending_session),
      \<lparr> outstanding_requests_dict = [],
        store = \<lparr> external_ids = [((''saml'', ''alice''), ''@alice6:server'')],
                  users = users taken_store @ [(''@alice6:server'', [])] \<rparr>,
        calls = [RegisterUser ''alice6'' None [],
                 RecordUserExternalId ''saml'' ''alice'' ''@alice6:server''] \<rparr>) \<and>
   map_saml_response_to_user full_handler ''bytes'' ''url''
      \<lparr> outstanding_requests_dict = [(''r'', pending_session)], store = taken_store, calls = [] \<rparr> =
     (Inl (SynapseError 500 ''Unable to generate a Matrix ID from the SAML response''),
      \<lparr> outstanding_requests_dict = [], store = taken_store, calls = [] \<rparr>)"
proof
  let ?self = "example_handler (Inr (alice_response ''r'')) None"
  let ?s = "\<lparr> outstanding_requests_dict = [(''r'', pending_session)], store = taken_store, calls = [] \<rparr>"
  let ?a6 = "\<lparr> mxid_localpart = Some ''alice6'', displayname = None, emails = Some [] \<rparr>"
  have resp: "\<not> not_signed (alice_response ''r'')" "in_response_to (alice_response ''r'') = ''r''"
    by (simp_all add: alice_response_def)
  have rid: "get_remote_user_id example_config (alice_response ''r'') ''url'' = Inr ''alice''"
    by (simp add: get_remote_user_id_def alice_response_def)
  have unbound: "mem_get_user_by_external_id taken_store auth_provider_id ''alice'' = Inr None"
    by (simp add: mem_get_user_by_external_id_def taken_store_def)
  have t0: "filter (\<lambda>(u, h). lower u = lower (''@'' @ ''alice'' @ '':server'')) (users taken_store) \<noteq> []"
    and t1: "filter (\<lambda>(u, h). lower u = lower (''@'' @ ''alice1'' @ '':server'')) (users taken_store) \<noteq> []"
    and t2: "filter (\<lambda>(u, h). lower u = lower (''@'' @ ''alice2'' @ '':server'')) (users taken_store) \<noteq> []"
    and t3: "filter (\<lambda>(u, h). lower u = lower (''@'' @ ''alice3'' @ '':server'')) (users taken_store) \<noteq> []"
    and t4: "filter (\<lambda>(u, h). lower u = lower (''@'' @ ''alice4'' @ '':server'')) (users taken_store) \<noteq> []"
    and t5: "filter (\<lambda>(u, h). lower u = lower (''@'' @ ''alice5'' @ '':server'')) (users taken_store) \<noteq> []"
    and t6: "filter (\<lambda>(u, h). lower u = lower (''@'' @ ''alice6'' @ '':server'')) (users taken_store) = []"
    by code_simp+
  have 1: "parse_authn_request_response ?self ''bytes'' (outstanding_requests_dict ?s) = Inr (alice_response ''r'')"
    by (simp add: example_handler_def)
  have 3: "mp_get_remote_user_id (user_mapping_provider ?self) (alice_response ''r'') ''url'' = Inr ''alice''"
    by (simp add: example_handler_def DefaultSamlMappingProvider_def rid)
  have 4: "''alice'' \<noteq> []" by simp
  have 5: "get_user_by_external_id ?self (store ?s) auth_provider_id ''alice'' = Inr None"
    by (simp add: example_handler_def unbound)
  have 6: "fst (grandfather_existing_user ?self (alice_response ''r'') ''alice''
           (?s\<lparr> outstanding_requests_dict :=
                 AList.delete (in_response_to (alice_response ''r'')) (outstanding_requests_dict ?s) \<rparr>)) = Inr None"
    by (simp add: grandfather_existing_user_def example_handler_def)
  have attempt: "\<And>i. mp_saml_response_to_user_attributes (user_mapping_provider ?self) (alice_response ''r'') i ''url''
      = Inr \<lparr> mxid_localpart = Some (''alice'' @ (if i \<noteq> 0 then str i else [])), displayname = None, emails = Some [] \<rparr>"
    by (simp add: example_handler_def DefaultSamlMappingProvider_def alice_attempt)
  have lookup: "\<And>lp. get_users_by_id_case_insensitive ?self taken_store (UserID_to_string lp (hostname ?self))
      = Inr (filter (\<lambda>(u, h). lower u = lower (''@'' @ lp @ '':server'')) (users taken_store))"
    by (simp add: example_handler_def mem_get_users_by_id_case_insensitive_def UserID_to_string_def)
  have six: "(6::nat) \<le> 1000" by simp
  have taken: "\<forall>i<6. \<exists>a lp us.
      mp_saml_response_to_user_attributes (user_mapping_provider ?self) (alice_response ''r'') i ''url'' = Inr a \<and>
      mxid_localpart a = Some lp \<and> lp \<noteq> [] \<and>
      get_users_by_id_case_insensitive ?self (store ?s) (UserID_to_string lp (hostname ?self)) = Inr us \<and> us \<noteq> []"
  proof (intro allI impI)
    fix i :: nat assume "i < 6"
    then have "i = 0 \<or> i = 1 \<or> i = 2 \<or> i = 3 \<or> i = 4 \<or> i = 5" by arith
    then show "\<exists>a lp us.
      mp_saml_response_to_user_attributes (user_mapping_provider ?self) (alice_response ''r'') i ''url'' = Inr a \<and>
      mxid_localpart a = Some lp \<and> lp \<noteq> [] \<and>
      get_users_by_id_case_insensitive ?self (store ?s) (UserID_to_string lp (hostname ?self)) = Inr us \<and> us \<noteq> []"
      using t0 t1 t2 t3 t4 t5
      by (elim disjE) (simp_all add: attempt lookup str_1_to_6)
  qed
  have free: "(6::nat) < 1000 \<and>
      mp_saml_response_to_user_attributes (user_mapping_provider ?self) (alice_response ''r'') 6 ''url'' = Inr ?a6 \<and>
      mxid_localpart ?a6 = Some ''alice6'' \<and> ''alice6'' \<noteq> [] \<and>
      get_users_by_id_case_insensitive ?self (store ?s) (UserID_to_string ''alice6'' (hostname ?self)) = Inr []"
    using t6 by (simp add: attempt lookup str_1_to_6)
  from fresh_provisioning_first_free [OF 1 resp(1) 3 4 5 6 six taken, THEN conjunct2, rule_format, OF free]
  show "map_saml_response_to_user ?self ''bytes'' ''url'' ?s =
     (Inr (''@alice6:server'', Some pending_session),
      \<lparr> outstanding_requests_dict = [],
        store = \<lparr> external_ids = [((''saml'', ''alice''), ''@alice6:server'')],
                  users = users taken_store @ [(''@alice6:server'', [])] \<rparr>,
        calls = [RegisterUser ''alice6'' None [],
                 RecordUserExternalId ''saml'' ''alice'' ''@alice6:server''] \<rparr>)"
    by (simp add: resp example_handler_def mem_register_user_def mem_record_user_external_id_def
        UserID_to_string_def auth_provider_id_def taken_store_def)
next
  let ?s = "\<lparr> outstanding_requests_dict = [(''r'', pending_session)], store = taken_store, calls = [] \<rparr>"
  have resp: "\<not> not_signed (alice_response ''r'')" "in_response_to (alice_response ''r'') = ''r''"
    by (simp_all add: alice_response_def)
  have rid: "get_remote_user_id example_config (alice_response ''r'') ''url'' = Inr ''alice''"
    by (simp add: get_remote_user_id_def alice_response_def)
  have unbound: "mem_get_user_by_external_id taken_store auth_provider_id ''alice'' = Inr None"
    by (simp add: mem_get_user_by_external_id_def taken_store_def)
  have 1: "parse_authn_request_response full_handler ''bytes'' (outstanding_requests_dict ?s) = Inr (alice_response ''r'')"
    by (simp add: full_handler_def example_handler_def)
  have 3: "mp_get_remote_user_id (user_mapping_provider full_handler) (alice_response ''r'') ''url'' = Inr ''alice''"
    by (simp add: full_handler_def example_handler_def DefaultSamlMappingProvider_def rid)
  have 4: "''alice'' \<noteq> []" by simp
  have 5: "get_user_by_external_id full_handler (store ?s) auth_provider_id ''alice'' = Inr None"
    by (simp add: full_handler_def example_handler_def unbound)
  have 6: "fst (grandfather_existing_user full_handler (alice_response ''r'') ''alice''
           (?s\<lparr> outstanding_requests_dict :=
                 AList.delete (in_response_to (alice_response ''r'')) (outstanding_requests_dict ?s) \<rparr>)) = Inr None"
    by (simp add: grandfather_existing_user_def full_handler_def example_handler_def)
  have always: "\<forall>i<1000. \<exists>a lp us.
      mp_saml_response_to_user_attributes (user_mapping_provider full_handler) (alice_response ''r'') i ''url'' = Inr a \<and>
      mxid_localpart a = Some lp \<and> lp \<noteq> [] \<and>
      get_users_by_id_case_insensitive full_handler (store ?s) (UserID_to_string lp (hostname full_handler)) = Inr us \<and> us \<noteq> []"
    by (simp add: full_handler_def example_handler_def DefaultSamlMappingProvider_def alice_attempt)
  have all: "(1000::nat) \<le> 1000" by simp
  from fresh_provisioning_first_free [OF 1 resp(1) 3 4 5 6 all always, THEN conjunct1, rule_format, OF refl]
  show "map_saml_response_to_user full_handler ''bytes'' ''url'' ?s =
     (Inl (SynapseError 500 ''Unable to generate a Matrix ID from the SAML response''),
      \<lparr> outstanding_requests_dict = [], store = taken_store, calls = [] \<rparr>)"
    by (simp add: resp)
qed

subsection \<open>The binding lookup\<close>

text \<open>
  C2: for every response that the parser accepts as signed and whose external user id has
  a binding for the provider, the resolution returns the bound local user id (with the
  pending session, if there was one). It makes no call to the registration handler, nor
  any other recorded call, and leaves the store as it was: only the pending session is
  removed from the table.
\<close>

theorem existing_binding_returned:
  assumes "parse_authn_request_response self resp_bytes (outstanding_requests_dict s) = Inr saml2_auth"
    and "\<not> not_signed saml2_auth"
    and "mp_get_remote_user_id (user_mapping_provider self) saml2_auth url = Inr remote_user_id"
    and "remote_user_id \<noteq> []"
    and "get_user_by_external_id self (store s) auth_provider_id remote_user_id = Inr (Some user_id)"
  shows "map_saml_response_to_user self resp_bytes url s =
           (Inr (user_id, map_of (outstanding_requests_dict s) (in_response_to saml2_auth)),
            s\<lparr> outstanding_requests_dict :=
                  AList.delete (in_response_to saml2_auth) (outstanding_requests_dict s) \<rparr>) \<and>
         calls (snd (map_saml_response_to_user self resp_bytes url s)) = calls s \<and>
         store (snd (map_saml_response_to_user self resp_bytes url s)) = store s"
  using assms by (simp add: map_saml_response_to_user_def Let_def)

theorem existing_binding_returned_witness:
  "map_saml_response_to_user (example_handler (Inr (alice_response ''r'')) None) ''bytes'' ''url''
      \<lparr> outstanding_requests_dict = [(''r'', pending_session)], store = bound_store, calls = [] \<rparr> =
     (Inr (''@alice:server'', Some pending_session),
      \<lparr> outstanding_requests_dict = [], store = bound_store, calls = [] \<rparr>)"
proof -
  let ?self = "example_handler (Inr (alice_response ''r'')) None"
  let ?s = "\<lparr> outstanding_requests_dict = [(''r'', pending_session)], store = bound_store, calls = [] \<rparr>"
  have 1: "parse_authn_request_response ?self ''bytes'' (outstanding_requests_dict ?s) = Inr (alice_response ''r'')"
    by (simp add: example_handler_def)
  have 2: "\<not> not_signed (alice_response ''r'')"
    by (simp add: alice_response_def)
  have 3: "mp_get_remote_user_id (user_mapping_provider ?self) (alice_response ''r'') ''url'' = Inr ''alice''"
    by (simp add: example_handler_def DefaultSamlMappingProvider_def get_remote_user_id_def alice_response_def)
  have 4: "''alice'' \<noteq> []" by simp
  have 5: "get_user_by_external_id ?self (store ?s) auth_provider_id ''alice'' = Inr (Some ''@alice:server'')"
    by (simp add: example_handler_def mem_get_user_by_external_id_def bound_store_def auth_provider_id_def)
  from existing_binding_returned [OF 1 2 3 4 5]
  show ?thesis by (simp add: alice_response_def)
qed

subsection \<open>What a rejected response leaves behind\<close>






subsection \<open>A response that answers no pending request\<close>





subsection \<open>The legacy fallback\<close>

text \<open>
  C3, as the claim states it, fails: the lookup finds two accounts, \<^verbatim>\<open>@Bob:server\<close>
  and \<^verbatim>\<open>@bob:server\<close>, and the binding is created all the same, to the first of
  them, which is returned.
\<close>

theorem grandfathered_two_matches_counterexample:
  "get_users_by_id_case_insensitive (example_handler (Inr (bob_response ''r'')) (Some ''legacy_uid''))
      two_bobs_store ''@bob:server'' = Inr [(''@Bob:server'', []), (''@bob:server'', [])] \<and>
   map_saml_response_to_user (example_handler (Inr (bob_response ''r'')) (Some ''legacy_uid''))
      ''bytes'' ''url''
      \<lparr> outstanding_requests_dict = [], store = two_bobs_store, calls = [] \<rparr> =
     (Inr (''@Bob:server'', None),
      \<lparr> outstanding_requests_dict = [],
        store = \<lparr> external_ids = [((''saml'', ''bob-ext''), ''@Bob:server'')],
                  users = [(''@Bob:server'', []), (''@bob:server'', [])] \<rparr>,
        calls = [RecordUserExternalId ''saml'' ''bob-ext'' ''@Bob:server''] \<rparr>)"
  by code_simp


text \<open>
  C3, amended: when there is no binding, the grandfathered attribute is configured and the
  assertion has a value for it, the case-insensitive lookup of the normalised value
  decides. If it finds at least one account, the binding to the first account found is
  written, and that account is returned once the write has succeeded. If it finds none,
  nothing is written at this step and the resolution goes on to provision a new account.
\<close>

theorem grandfathered_user_bound:
  assumes "parse_authn_request_response self resp_bytes (outstanding_requests_dict s) = Inr saml2_auth"
    and "\<not> not_signed saml2_auth"
    and "mp_get_remote_user_id (user_mapping_provider self) saml2_auth url = Inr remote_user_id"
    and "remote_user_id \<noteq> []"
    and "get_user_by_external_id self (store s) auth_provider_id remote_user_id = Inr None"
    and "grandfathered_mxid_source_attribute self = Some g" and "g \<noteq> []"
    and "ava saml2_auth g = Some (attrval # vs)"
    and "get_users_by_id_case_insensitive self (store s)
           (UserID_to_string (map_username_to_mxid_localpart self attrval) (hostname self)) = Inr found"
  shows "(found \<noteq> [] \<longrightarrow>
            map_saml_response_to_user self resp_bytes url s =
              (case fst (record_user_external_id self (store s) auth_provider_id remote_user_id (fst (hd found))) of
                 Inl e \<Rightarrow> Inl e
               | Inr _ \<Rightarrow> Inr (fst (hd found),
                                map_of (outstanding_requests_dict s) (in_response_to saml2_auth)),
               s\<lparr> outstanding_requests_dict :=
                     AList.delete (in_response_to saml2_auth) (outstanding_requests_dict s),
                   store := snd (record_user_external_id self (store s)
                                   auth_provider_id remote_user_id (fst (hd found))),
                   calls := calls s @
                     [RecordUserExternalId auth_provider_id remote_user_id (fst (hd found))] \<rparr>)) \<and>
         (found = [] \<longrightarrow>
            map_saml_response_to_user self resp_bytes url s =
              (case register_new_user self saml2_auth url remote_user_id
                      (s\<lparr> outstanding_requests_dict :=
                            AList.delete (in_response_to saml2_auth) (outstanding_requests_dict s) \<rparr>) of
                 (Inl e, s3) \<Rightarrow> (Inl e, s3)
               | (Inr registered_user_id, s3) \<Rightarrow>
                   (Inr (registered_user_id,
                         map_of (outstanding_requests_dict s) (in_response_to saml2_auth)), s3)))"
  using assms
  by (cases found)
     (auto simp: map_saml_response_to_user_def grandfather_existing_user_def Let_def
        split: prod.splits sum.splits)

theorem grandfathered_user_bound_witness:
  "map_saml_response_to_user (example_handler (Inr (bob_response ''r'')) (Some ''legacy_uid''))
      ''bytes'' ''url''
      \<lparr> outstanding_requests_dict = [], store = one_bob_store, calls = [] \<rparr> =
     (Inr (''@bob:server'', None),
      \<lparr> outstanding_requests_dict = [],
        store = \<lparr> external_ids = [((''saml'', ''bob-ext''), ''@bob:server'')],
                  users = [(''@bob:server'', [])] \<rparr>,
        calls = [RecordUserExternalId ''saml'' ''bob-ext'' ''@bob:server''] \<rparr>)"
proof -
  let ?self = "example_handler (Inr (bob_response ''r'')) (Some ''legacy_uid'')"
  let ?s = "\<lparr> outstanding_requests_dict = [], store = one_bob_store, calls = [] \<rparr>"
  have 1: "parse_authn_request_response ?self ''bytes'' (outstanding_requests_dict ?s) = Inr (bob_response ''r'')"
    by (simp add: example_handler_def)
  have 2: "\<not> not_signed (bob_response ''r'')"
    by (simp add: bob_response_def)
  have 3: "mp_get_remote_user_id (user_mapping_provider ?self) (bob_response ''r'') ''url'' = Inr ''bob-ext''"
    by (simp add: example_handler_def DefaultSamlMappingProvider_def get_remote_user_id_def bob_response_def)
  have 4: "''bob-ext'' \<noteq> []" by simp
  have 5: "get_user_by_external_id ?self (store ?s) auth_provider_id ''bob-ext'' = Inr None"
    by (simp add: example_handler_def mem_get_user_by_external_id_def one_bob_store_def)
  have 6: "grandfathered_mxid_source_attribute ?self = Some ''legacy_uid''"
    by (simp add: example_handler_def)
  have 7: "''legacy_uid'' \<noteq> []" by simp
  have 8: "ava (bob_response ''r'') ''legacy_uid'' = Some [''Bob'']"
    by (simp add: bob_response_def)
  have 9: "get_users_by_id_case_insensitive ?self (store ?s)
           (UserID_to_string (map_username_to_mxid_localpart ?self ''Bob'') (hostname ?self))
           = Inr [(''@bob:server'', [])]"
    by code_simp
  from grandfathered_user_bound [OF 1 2 3 4 5 6 7 8 9] show ?thesis
    by (simp add: example_handler_def mem_record_user_external_id_def one_bob_store_def
        auth_provider_id_def bob_response_def)
qed

subsection \<open>Registration and binding\<close>

text \<open>
  The calls that one resolution adds to the record: none, or one binding (the legacy
  fallback), or a registration that failed, or a registration followed by the binding of
  the user it returned.
\<close>

lemma grandfather_calls:
  "grandfather_existing_user self auth rid s = (r, s') \<Longrightarrow>
     outstanding_requests_dict s' = outstanding_requests_dict s \<and>
     (calls s' = calls s \<or> (\<exists>u. calls s' = calls s @ [RecordUserExternalId auth_provider_id rid u]))"
  by (auto simp: grandfather_existing_user_def Let_def
      split: option.splits list.splits sum.splits prod.splits if_splits)

lemma register_new_user_calls:
  assumes "register_new_user self auth url rid s = (r, s')"
  shows "calls s' = calls s \<or>
     (\<exists>lp dn em e. fst (register_user self (store s) lp dn em) = Inl e \<and>
        r = Inl e \<and> calls s' = calls s @ [RegisterUser lp dn em]) \<or>
     (\<exists>lp dn em uid. fst (register_user self (store s) lp dn em) = Inr uid \<and>
        calls s' = calls s @ [RegisterUser lp dn em, RecordUserExternalId auth_provider_id rid uid])"
proof (cases "find_free_localpart self (store s) auth url [0..<1000]")
  case (Inl e)
  with assms show ?thesis by (simp add: register_new_user_def)
next
  case (Inr t)
  obtain lp dn em where t: "t = (lp, dn, em)" by (cases t)
  obtain q st where reg: "register_user self (store s) lp dn em = (q, st)" by force
  show ?thesis
  proof (cases q)
    case (Inl e)
    with assms Inr t reg have "r = Inl e \<and> calls s' = calls s @ [RegisterUser lp dn em]"
      by (auto simp: register_new_user_def)
    moreover from reg Inl have "fst (register_user self (store s) lp dn em) = Inl e" by simp
    ultimately show ?thesis by blast
  next
    case q: (Inr uid)
    with assms Inr t reg
    have "calls s' = calls s @ [RegisterUser lp dn em, RecordUserExternalId auth_provider_id rid uid]"
      by (auto simp: register_new_user_def Let_def split: prod.splits sum.splits)
    moreover from reg q have "fst (register_user self (store s) lp dn em) = Inr uid" by simp
    ultimately show ?thesis by blast
  qed
qed

lemma map_saml_response_to_user_calls:
  assumes "map_saml_response_to_user self resp_bytes url s = (r, s')"
  shows "calls s' = calls s \<or>
     (\<exists>rid u. calls s' = calls s @ [RecordUserExternalId auth_provider_id rid u]) \<or>
     (\<exists>lp dn em e. fst (register_user self (store s) lp dn em) = Inl e \<and>
        r = Inl e \<and> calls s' = calls s @ [RegisterUser lp dn em]) \<or>
     (\<exists>rid lp dn em uid. fst (register_user self (store s) lp dn em) = Inr uid \<and>
        calls s' = calls s @ [RegisterUser lp dn em, RecordUserExternalId auth_provider_id rid uid])"
proof (cases "parse_authn_request_response self resp_bytes (outstanding_requests_dict s)")
  case (Inl e)
  with assms show ?thesis by (simp add: map_saml_response_to_user_def)
next
  case (Inr auth)
  let ?s1 = "s\<lparr> outstanding_requests_dict :=
                 AList.delete (in_response_to auth) (outstanding_requests_dict s) \<rparr>"
  show ?thesis
  proof (cases "\<exists>rid. \<not> not_signed auth \<and>
      mp_get_remote_user_id (user_mapping_provider self) auth url = Inr rid \<and> rid \<noteq> [] \<and>
      get_user_by_external_id self (store s) auth_provider_id rid = Inr None")
    case False
    with assms Inr have "calls s' = calls s"
      by (auto simp: map_saml_response_to_user_def Let_def split: sum.splits option.splits if_splits)
    then show ?thesis by simp
  next
    case True
    then obtain rid where rid: "\<not> not_signed auth"
      "mp_get_remote_user_id (user_mapping_provider self) auth url = Inr rid" "rid \<noteq> []"
      "get_user_by_external_id self (store s) auth_provider_id rid = Inr None" by blast
    obtain g s2 where g: "grandfather_existing_user self auth rid ?s1 = (g, s2)" by force
    show ?thesis
    proof (cases "g = Inr None")
      case False
      with assms Inr rid g have "s' = s2"
        by (auto simp: map_saml_response_to_user_def Let_def split: sum.splits option.splits)
      with grandfather_calls [OF g] show ?thesis by auto
    next
      case True
      with g have s2: "s2 = ?s1" by (auto dest: grandfather_None)
      obtain r2 where r2: "register_new_user self auth url rid ?s1 = (r2, s')"
        "\<And>e. r2 = Inl e \<Longrightarrow> r = Inl e"
        using assms Inr rid g True s2
        by (auto simp: map_saml_response_to_user_def Let_def split: sum.splits prod.splits)
      from register_new_user_calls [OF r2(1)] r2(2) show ?thesis
        by simp blast
    qed
  qed
qed

text \<open>
  C7: in every resolution that calls the registration handler, the call is made on the
  store as the resolution found it. If it fails, its error is the result of the
  resolution and the registration is the only call recorded: no binding is written. If it
  succeeds, exactly one binding is written, after the registration, for the user id that
  the registration returned.
\<close>

theorem binding_only_after_registration:
  assumes "map_saml_response_to_user self resp_bytes url s = (r, s')"
    and "RegisterUser localpart display_name bind_emails \<in> set (drop (length (calls s)) (calls s'))"
  shows "\<exists>remote_user_id.
     (case fst (register_user self (store s) localpart display_name bind_emails) of
        Inl e \<Rightarrow>
          r = Inl e \<and>
          calls s' = calls s @ [RegisterUser localpart display_name bind_emails]
      | Inr registered_user_id \<Rightarrow>
          calls s' = calls s @
            [RegisterUser localpart display_name bind_emails,
             RecordUserExternalId auth_provider_id remote_user_id registered_user_id])"
  using map_saml_response_to_user_calls [OF assms(1)] assms(2)
  by (elim disjE exE conjE) auto


theorem binding_only_after_registration_witness:
  "map_saml_response_to_user failing_handler ''bytes'' ''url''
      \<lparr> outstanding_requests_dict = [(''r'', pending_session)], store = empty_store, calls = [] \<rparr> =
     (Inl (SynapseError 400 ''User ID already taken.''),
      \<lparr> outstanding_requests_dict = [], store = empty_store,
        calls = [RegisterUser ''alice'' None []] \<rparr>) \<and>
   map_saml_response_to_user (example_handler (Inr (alice_response ''r'')) None) ''bytes'' ''url''
      \<lparr> outstanding_requests_dict = [(''r'', pending_session)], store = empty_store, calls = [] \<rparr> =
     (Inr (''@alice:server'', Some pending_session),
      \<lparr> outstanding_requests_dict = [],
        store = \<lparr> external_ids = [((''saml'', ''alice''), ''@alice:server'')],
                  users = [(''@alice:server'', [])] \<rparr>,
        calls = [RegisterUser ''alice'' None [],
                 RecordUserExternalId ''saml'' ''alice'' ''@alice:server''] \<rparr>)"
proof
  let ?s = "\<lparr> outstanding_requests_dict = [(''r'', pending_session)], store = empty_store, calls = [] \<rparr>"
  let ?a = "\<lparr> mxid_localpart = Some ''alice'', displayname = None, emails = Some [] \<rparr>"
  have resp: "\<not> not_signed (alice_response ''r'')" "in_response_to (alice_response ''r'') = ''r''"
    by (simp_all add: alice_response_def)
  have none: "\<And>p x. mem_get_user_by_external_id empty_store p x = Inr None"
    by (simp add: mem_get_user_by_external_id_def empty_store_def)
  have free: "\<And>u. mem_get_users_by_id_case_insensitive empty_store u = Inr []"
    by (simp add: mem_get_users_by_id_case_insensitive_def empty_store_def)
  have rid: "get_remote_user_id example_config (alice_response ''r'') ''url'' = Inr ''alice''"
    by (simp add: get_remote_user_id_def alice_response_def)
  have attempt: "saml_response_to_user_attributes example_config (alice_response ''r'') 0 ''url'' = Inr ?a"
    by (simp add: saml_response_to_user_attributes_def example_config_def alice_response_def norm_alice)
  {
    fix self :: "mem_store SamlHandler"
    assume sel: "parse_authn_request_response self = (\<lambda>resp_bytes outstanding. Inr (alice_response ''r''))"
      "user_mapping_provider self = DefaultSamlMappingProvider example_config"
      "grandfathered_mxid_source_attribute self = None"
      "get_user_by_external_id self = mem_get_user_by_external_id"
      "get_users_by_id_case_insensitive self = mem_get_users_by_id_case_insensitive"
      "record_user_external_id self = mem_record_user_external_id"
    have "find_free_localpart self empty_store (alice_response ''r'') ''url'' [0..<1000] =
        Inr (''alice'', displayname ?a, case emails ?a of None \<Rightarrow> [] | Some es \<Rightarrow> es)"
      by (rule find_free_localpart_found [where k = 0 and a = ?a])
         (simp_all add: sel DefaultSamlMappingProvider_def attempt free)
    then have loop: "find_free_localpart self empty_store (alice_response ''r'') ''url'' [0..<1000] =
        Inr (''alice'', None, [])"
      by (simp only: attribute_dict.simps option.case)
    have "map_saml_response_to_user self ''bytes'' ''url'' ?s =
        (case fst (register_user self empty_store ''alice'' None []) of
           Inl e \<Rightarrow> (Inl e,
              \<lparr> outstanding_requests_dict = [], store = snd (register_user self empty_store ''alice'' None []),
                calls = [RegisterUser ''alice'' None []] \<rparr>)
         | Inr u \<Rightarrow> (Inr (u, Some pending_session),
              \<lparr> outstanding_requests_dict = [],
                store = snd (mem_record_user_external_id
                          (snd (register_user self empty_store ''alice'' None [])) ''saml'' ''alice'' u),
                calls = [RegisterUser ''alice'' None [], RecordUserExternalId ''saml'' ''alice'' u] \<rparr>))"
      by (simp add: map_saml_response_to_user_def grandfather_existing_user_def register_new_user_def
          sel resp rid none loop DefaultSamlMappingProvider_def auth_provider_id_def
          mem_record_user_external_id_def Let_def split: prod.splits sum.splits)
  }
  note run = this
  have fail: "map_saml_response_to_user failing_handler ''bytes'' ''url'' ?s =
     (Inl (SynapseError 400 ''User ID already taken.''),
      \<lparr> outstanding_requests_dict = [], store = empty_store,
        calls = [RegisterUser ''alice'' None []] \<rparr>)"
    by (subst run) (simp_all add: failing_handler_def example_handler_def)
  have mem: "RegisterUser ''alice'' None [] \<in> set (drop (length (calls ?s))
      (calls \<lparr> outstanding_requests_dict = [], store = empty_store,
        calls = [RegisterUser ''alice'' None []] \<rparr>))"
    by simp
  from binding_only_after_registration [OF fail mem] fail
  show "map_saml_response_to_user failing_handler ''bytes'' ''url'' ?s =
     (Inl (SynapseError 400 ''User ID already taken.''),
      \<lparr> outstanding_requests_dict = [], store = empty_store,
        calls = [RegisterUser ''alice'' None []] \<rparr>)"
    by simp
  have ok: "map_saml_response_to_user (example_handler (Inr (alice_response ''r'')) None) ''bytes'' ''url'' ?s =
     (Inr (''@alice:server'', Some pending_session),
      \<lparr> outstanding_requests_dict = [],
        store = \<lparr> external_ids = [((''saml'', ''alice''), ''@alice:server'')],
                  users = [(''@alice:server'', [])] \<rparr>,
        calls = [RegisterUser ''alice'' None [],
                 RecordUserExternalId ''saml'' ''alice'' ''@alice:server''] \<rparr>)"
    by (subst run)
       (simp_all add: example_handler_def mem_register_user_def mem_record_user_external_id_def
          UserID_to_string_def empty_store_def)
  have mem2: "RegisterUser ''alice'' None [] \<in> set (drop (length (calls ?s))
      (calls \<lparr> outstanding_requests_dict = [],
        store = \<lparr> external_ids = [((''saml'', ''alice''), ''@alice:server'')],
                  users = [(''@alice:server'', [])] \<rparr>,
        calls = [RegisterUser ''alice'' None [],
                 RecordUserExternalId ''saml'' ''alice'' ''@alice:server''] \<rparr>))"
    by simp
  from binding_only_after_registration [OF ok mem2] ok
  show "map_saml_response_to_user (example_handler (Inr (alice_response ''r'')) None) ''bytes'' ''url'' ?s =
     (Inr (''@alice:server'', Some pending_session),
      \<lparr> outstanding_requests_dict = [],
        store = \<lparr> external_ids = [((''saml'', ''alice''), ''@alice:server'')],
                  users = [(''@alice:server'', [])] \<rparr>,
        calls = [RegisterUser ''alice'' None [],
                 RecordUserExternalId ''saml'' ''alice'' ''@alice:server''] \<rparr>)"
    by simp
qed

end
